theory Spec2Isabelle
  imports Complex_Main
begin

section \<open>Python values used by NewsSense\<close>

subsection \<open>Strings\<close>

text \<open>
  A Python \<^verbatim>\<open>str\<close> is a sequence of Unicode code points. \<^verbatim>\<open>str.strip\<close> works on code
  points (the bullet U+2022 is one character), so a string is a list of code points and
  not a list of bytes. \<open>lit\<close> turns an ASCII literal of the theory into such a string.
\<close>

type_synonym pystr = "nat list"

definition lit :: "string \<Rightarrow> pystr" where
  "lit s = map of_char s"

text \<open>\<^verbatim>\<open>str(n)\<close> for an \<^verbatim>\<open>int\<close>: decimal digits, a minus sign for a negative number.\<close>

fun digits :: "nat \<Rightarrow> pystr" where
  "digits n = (if n < 10 then [48 + n] else digits (n div 10) @ [48 + n mod 10])"

declare digits.simps [simp del]

definition str_int :: "int \<Rightarrow> pystr" where
  "str_int i = (if i < 0 then 45 # digits (nat (- i)) else digits (nat i))"

text \<open>
  \<^verbatim>\<open>str.isspace\<close> of one character: the code points CPython lists as whitespace.
\<close>

definition isspace :: "nat \<Rightarrow> bool" where
  "isspace c \<longleftrightarrow>
     (9 \<le> c \<and> c \<le> 13) \<or> (28 \<le> c \<and> c \<le> 32) \<or> c = 133 \<or> c = 160 \<or> c = 5760 \<or>
     (8192 \<le> c \<and> c \<le> 8202) \<or> c = 8232 \<or> c = 8233 \<or> c = 8239 \<or> c = 8287 \<or> c = 12288"

text \<open>
  \<^verbatim>\<open>s.strip(chars)\<close> removes, from both ends, the characters that are in \<^verbatim>\<open>chars\<close>;
  \<^verbatim>\<open>s.strip()\<close> removes whitespace. Both are \<open>strip_where\<close> with the matching test.
\<close>

definition strip_where :: "(nat \<Rightarrow> bool) \<Rightarrow> pystr \<Rightarrow> pystr" where
  "strip_where p s = rev (dropWhile p (rev (dropWhile p s)))"

definition strip :: "pystr \<Rightarrow> pystr" where
  "strip s = strip_where isspace s"

definition strip_chars :: "pystr \<Rightarrow> pystr \<Rightarrow> pystr" where
  "strip_chars chars s = strip_where (\<lambda>c. c \<in> set chars) s"

text \<open>
  \<^verbatim>\<open>s.split(sep)\<close> for a one-character separator: every occurrence cuts, empty pieces
  are kept, and the empty string splits into one empty piece.
\<close>

fun split :: "nat \<Rightarrow> pystr \<Rightarrow> pystr list" where
  "split sep [] = [[]]"
| "split sep (c # cs) =
     (if c = sep then [] # split sep cs
      else (case split sep cs of
              [] \<Rightarrow> [[c]]
            | p # ps \<Rightarrow> (c # p) # ps))"


subsection \<open>Exceptions\<close>

text \<open>
  An exception is its class name and the text \<^verbatim>\<open>str(e)\<close> gives. Every exception of the
  model is a subclass of \<^verbatim>\<open>Exception\<close>: the ones the HTTP and completion libraries
  raise and the ones the interpreter raises for a wrong attribute, key, index or type.
  A raising computation is \<open>Inl e\<close>, a returning one \<open>Inr v\<close>.
\<close>

datatype exn = PyException (exn_class: string) (str_exn: pystr)

definition ValueError :: "pystr \<Rightarrow> exn" where
  "ValueError m = PyException ''ValueError'' m"

definition AttributeError :: "pystr \<Rightarrow> exn" where
  "AttributeError m = PyException ''AttributeError'' m"

definition TypeError :: "pystr \<Rightarrow> exn" where
  "TypeError m = PyException ''TypeError'' m"

definition KeyError :: "pystr \<Rightarrow> exn" where
  "KeyError m = PyException ''KeyError'' m"

definition IndexError :: "pystr \<Rightarrow> exn" where
  "IndexError m = PyException ''IndexError'' m"

text \<open>
  \<^verbatim>\<open>try: body  except Exception as e: handler(e)\<close>: the handler runs on the exception
  of the body, and what the handler raises is raised.
\<close>

definition try_except :: "exn + 'a \<Rightarrow> (exn \<Rightarrow> exn + 'a) \<Rightarrow> exn + 'a" where
  "try_except body handler = (case body of Inl e \<Rightarrow> handler e | Inr v \<Rightarrow> Inr v)"

text \<open>Sequencing of raising computations: the first exception ends the block.\<close>

definition bind :: "exn + 'a \<Rightarrow> ('a \<Rightarrow> exn + 'b) \<Rightarrow> exn + 'b" where
  "bind m f = (case m of Inl e \<Rightarrow> Inl e | Inr v \<Rightarrow> f v)"

section \<open>Configuration at import time (main.py, lines 14-31)\<close>

text \<open>
  Before the module reads its settings it configures Logfire (lines 15-16:
  \<^verbatim>\<open>logfire.configure()\<close> and \<^verbatim>\<open>logfire.instrument_openai_agents()\<close>). In an environment
  without Logfire credentials these calls raise (\<^verbatim>\<open>LogfireConfigError\<close>) and the import
  ends there, before the check of line 28. What they do depends on the Logfire
  installation and not on this repository: their outcome is the argument
  \<open>logfire_setup\<close>, an exception or a normal return.

  \<^verbatim>\<open>os.getenv(name)\<close>, read after \<^verbatim>\<open>load_dotenv()\<close>, is \<open>None\<close> for an unset variable and
  the value otherwise. The module reads six variables and refuses to load when one of
  the first three is unset or empty (\<^verbatim>\<open>not x\<close> holds for \<open>None\<close> and for the empty
  string).
\<close>

type_synonym environ = "pystr \<Rightarrow> pystr option"

record config =
  BASE_URL :: "pystr option"
  API_KEY :: "pystr option"
  MODEL_NAME :: "pystr option"
  GNEWS_API_KEY :: "pystr option"
  GOOGLE_API_KEY :: "pystr option"
  SEARCH_ENGINE_ID :: "pystr option"

definition load_config :: "environ \<Rightarrow> config" where
  "load_config getenv =
     \<lparr>BASE_URL = getenv (lit ''BASE_URL''),
      API_KEY = getenv (lit ''API_KEY''),
      MODEL_NAME = getenv (lit ''MODEL_NAME''),
      GNEWS_API_KEY = getenv (lit ''GNEWS_API_KEY''),
      GOOGLE_API_KEY = getenv (lit ''GOOGLE_API_KEY''),
      SEARCH_ENGINE_ID = getenv (lit ''SEARCH_ENGINE_ID'')\<rparr>"

definition not_str :: "pystr option \<Rightarrow> bool" where
  "not_str x \<longleftrightarrow> (case x of None \<Rightarrow> True | Some s \<Rightarrow> s = [])"

definition settings_error :: exn where
  "settings_error =
     ValueError (lit ''Please set BASE_URL, API_KEY, and MODEL_NAME in your environment.'')"

definition startup :: "exn + unit \<Rightarrow> environ \<Rightarrow> exn + config" where
  "startup logfire_setup getenv =
     bind logfire_setup (\<lambda>u.
       let cfg = load_config getenv in
       if not_str (BASE_URL cfg) \<or> not_str (API_KEY cfg) \<or> not_str (MODEL_NAME cfg)
       then Inl settings_error
       else Inr cfg)"

text \<open>
  A setting is required when the module cannot load without it: every import in an
  environment that leaves it unset ends in an exception.
\<close>

definition setting_required :: "pystr \<Rightarrow> bool" where
  "setting_required name \<longleftrightarrow>
     (\<forall>logfire_setup getenv. getenv name = None \<longrightarrow> isl (startup logfire_setup getenv))"

definition required_names :: "pystr list" where
  "required_names = [lit ''BASE_URL'', lit ''API_KEY'', lit ''MODEL_NAME'']"

section \<open>UserContext (main.py, lines 50-60)\<close>

text \<open>
  The dataclass stores its three arguments, \<open>None\<close> for an omitted one, and
  \<^verbatim>\<open>__post_init__\<close> then fills the two optional fields. \<^verbatim>\<open>datetime.now()\<close> reads the
  clock: the reading is the argument \<open>now\<close>.
\<close>

datatype datetime = Datetime int

record UserContext =
  user_id :: pystr
  preferred_topics :: "pystr list option"
  session_start :: "datetime option"

definition dataclass_init :: "pystr \<Rightarrow> pystr list option \<Rightarrow> datetime option \<Rightarrow> UserContext" where
  "dataclass_init uid topics start =
     \<lparr>user_id = uid, preferred_topics = topics, session_start = start\<rparr>"

definition post_init :: "datetime \<Rightarrow> UserContext \<Rightarrow> UserContext" where
  "post_init now self =
     (let self1 = (if preferred_topics self = None
                   then self\<lparr>preferred_topics := Some []\<rparr> else self)
      in (if session_start self1 = None
          then self1\<lparr>session_start := Some now\<rparr> else self1))"

definition new_UserContext ::
  "datetime \<Rightarrow> pystr \<Rightarrow> pystr list option \<Rightarrow> datetime option \<Rightarrow> UserContext" where
  "new_UserContext now uid topics start = post_init now (dataclass_init uid topics start)"

section \<open>JSON documents and the Python operations the tools apply to them\<close>

text \<open>
  \<^verbatim>\<open>response.json()\<close> yields \<open>None\<close>, a \<^verbatim>\<open>bool\<close>, an \<^verbatim>\<open>int\<close>, a \<^verbatim>\<open>float\<close>, a \<^verbatim>\<open>str\<close>, a
  \<^verbatim>\<open>list\<close> or a \<^verbatim>\<open>dict\<close> with string keys. An object is the list of its members in order;
  a lookup takes the first member of a key.
\<close>

datatype json = JNull | JBool bool | JInt int | JFloat real | JStr pystr
  | JList "json list" | JObj "(pystr \<times> json) list"

fun type_name :: "json \<Rightarrow> pystr" where
  "type_name JNull = lit ''NoneType''"
| "type_name (JBool b) = lit ''bool''"
| "type_name (JInt i) = lit ''int''"
| "type_name (JFloat x) = lit ''float''"
| "type_name (JStr s) = lit ''str''"
| "type_name (JList xs) = lit ''list''"
| "type_name (JObj kvs) = lit ''dict''"

text \<open>Truth value of a document, as \<^verbatim>\<open>not x\<close> and \<^verbatim>\<open>if x\<close> test it.\<close>

fun truthy :: "json \<Rightarrow> bool" where
  "truthy JNull = False"
| "truthy (JBool b) = b"
| "truthy (JInt i) = (i \<noteq> 0)"
| "truthy (JFloat x) = (x \<noteq> 0)"
| "truthy (JStr s) = (s \<noteq> [])"
| "truthy (JList xs) = (xs \<noteq> [])"
| "truthy (JObj kvs) = (kvs \<noteq> [])"

text \<open>A name between single quotes, as the interpreter's messages print it.\<close>

definition quoted :: "pystr \<Rightarrow> pystr" where
  "quoted s = [39] @ s @ [39]"

text \<open>
  \<^verbatim>\<open>x.get(key, default)\<close>: only a dict has the method. The texts of the interpreter's
  exceptions are CPython's; no theorem below depends on their wording.
\<close>

fun py_get :: "json \<Rightarrow> pystr \<Rightarrow> json \<Rightarrow> exn + json" where
  "py_get (JObj kvs) key dflt =
     Inr (case map_of kvs key of Some v \<Rightarrow> v | None \<Rightarrow> dflt)"
| "py_get x key dflt =
     Inl (AttributeError
       (quoted (type_name x) @ lit '' object has no attribute '' @ quoted (lit ''get'')))"

text \<open>\<^verbatim>\<open>x[key]\<close> with a string key.\<close>

fun py_getitem :: "json \<Rightarrow> pystr \<Rightarrow> exn + json" where
  "py_getitem (JObj kvs) key =
     (case map_of kvs key of
        Some v \<Rightarrow> Inr v
      | None \<Rightarrow> Inl (KeyError (quoted key)))"
| "py_getitem (JStr s) key =
     Inl (TypeError (lit ''string indices must be integers, not '' @ quoted (lit ''str'')))"
| "py_getitem (JList xs) key =
     Inl (TypeError (lit ''list indices must be integers or slices, not str''))"
| "py_getitem x key =
     Inl (TypeError (quoted (type_name x) @ lit '' object is not subscriptable''))"

text \<open>\<^verbatim>\<open>x[:n]\<close>: a list or a string is cut, a dict refuses the slice as a key.\<close>

fun py_slice :: "nat \<Rightarrow> json \<Rightarrow> exn + json" where
  "py_slice n (JList xs) = Inr (JList (take n xs))"
| "py_slice n (JStr s) = Inr (JStr (take n s))"
| "py_slice n (JObj kvs) = Inl (TypeError (lit ''unhashable type: '' @ quoted (lit ''slice'')))"
| "py_slice n x =
     Inl (TypeError (quoted (type_name x) @ lit '' object is not subscriptable''))"

text \<open>
  The elements a \<^verbatim>\<open>for\<close> loop sees: those of a list, the characters of a string, the
  keys of a dict.
\<close>

fun py_iter :: "json \<Rightarrow> exn + json list" where
  "py_iter (JList xs) = Inr xs"
| "py_iter (JStr s) = Inr (map (\<lambda>c. JStr [c]) s)"
| "py_iter (JObj kvs) = Inr (map (\<lambda>kv. JStr (fst kv)) kvs)"
| "py_iter x = Inl (TypeError (quoted (type_name x) @ lit '' object is not iterable''))"

text \<open>
  A list comprehension over \<^verbatim>\<open>enumerate(xs)\<close> whose element expression may raise: the
  elements are built in order and the first exception ends the comprehension.
\<close>

fun comprehension :: "(nat \<Rightarrow> 'a \<Rightarrow> exn + 'b) \<Rightarrow> nat \<Rightarrow> 'a list \<Rightarrow> exn + 'b list" where
  "comprehension f i [] = Inr []"
| "comprehension f i (x # xs) =
     bind (f i x) (\<lambda>y. bind (comprehension f (Suc i) xs) (\<lambda>ys. Inr (y # ys)))"

section \<open>The HTTP provider\<close>

text \<open>
  \<^verbatim>\<open>requests.get(url, params=...)\<close> raises (no connection, a timeout, ...) or returns a
  response; \<^verbatim>\<open>response.json()\<close> raises on a body that is not JSON. The provider is a
  function of the request, so a stubbed provider is a function the test chooses.
\<close>

record response =
  status_code :: int
  resp_text :: pystr
  resp_json :: "exn + json"

type_synonym http = "pystr \<Rightarrow> (pystr \<times> json) list \<Rightarrow> exn + response"

definition json_opt :: "pystr option \<Rightarrow> json" where
  "json_opt x = (case x of None \<Rightarrow> JNull | Some s \<Rightarrow> JStr s)"

text \<open>\<^verbatim>\<open>x or d\<close> for an optional string.\<close>

definition or_str :: "pystr option \<Rightarrow> pystr \<Rightarrow> pystr" where
  "or_str x d = (case x of None \<Rightarrow> d | Some s \<Rightarrow> if s = [] then d else s)"

text \<open>An optional string inside an f-string: \<^verbatim>\<open>str(None)\<close> is \<^verbatim>\<open>None\<close>.\<close>

definition str_opt :: "pystr option \<Rightarrow> pystr" where
  "str_opt x = (case x of None \<Rightarrow> lit ''None'' | Some s \<Rightarrow> s)"

section \<open>The module after import\<close>

subsection \<open>The completion client (main.py, line 31)\<close>

text \<open>
  The completion service answers a request with a completion or an exception. A
  completion is the list of its choices, each the \<^verbatim>\<open>message.content\<close> of the choice
  (\<open>None\<close> when the model sent no text).

  The library has two clients over the same service. \<^verbatim>\<open>OpenAI\<close> is synchronous: its
  \<^verbatim>\<open>chat.completions.create\<close> performs the request and returns the completion.
  \<^verbatim>\<open>AsyncOpenAI\<close> declares the method \<^verbatim>\<open>async def\<close>: a call performs nothing and returns a
  coroutine object, which yields the completion only when awaited.
\<close>

record chat_request =
  model :: "pystr option"
  messages :: "(pystr \<times> pystr) list"

datatype chat_completion = ChatCompletion (choices: "pystr option list")

type_synonym completion_service = "chat_request \<Rightarrow> exn + chat_completion"

datatype openai_client = OpenAI completion_service | AsyncOpenAI completion_service

datatype create_result = Completion chat_completion | Coroutine

fun create :: "openai_client \<Rightarrow> chat_request \<Rightarrow> exn + create_result" where
  "create (OpenAI service) request =
     (case service request of Inl e \<Rightarrow> Inl e | Inr c \<Rightarrow> Inr (Completion c))"
| "create (AsyncOpenAI service) request = Inr Coroutine"

text \<open>\<^verbatim>\<open>response.choices\<close>: a coroutine object has no such attribute.\<close>

fun get_choices :: "create_result \<Rightarrow> exn + pystr option list" where
  "get_choices (Completion c) = Inr (choices c)"
| "get_choices Coroutine =
     Inl (AttributeError
       (quoted (lit ''coroutine'') @ lit '' object has no attribute '' @ quoted (lit ''choices'')))"

text \<open>\<^verbatim>\<open>xs[0]\<close>.\<close>

fun index0 :: "'a list \<Rightarrow> exn + 'a" where
  "index0 [] = Inl (IndexError (lit ''list index out of range''))"
| "index0 (x # xs) = Inr x"

text \<open>\<^verbatim>\<open>message.content.strip()\<close>.\<close>

fun content_strip :: "pystr option \<Rightarrow> exn + pystr" where
  "content_strip None =
     Inl (AttributeError
       (quoted (lit ''NoneType'') @ lit '' object has no attribute '' @ quoted (lit ''strip'')))"
| "content_strip (Some s) = Inr (strip s)"

subsection \<open>The globals the tools read\<close>

text \<open>
  The tools read the module's globals: the configuration and \<^verbatim>\<open>client\<close>. Importing the
  module binds \<^verbatim>\<open>client\<close> to an \<^verbatim>\<open>AsyncOpenAI\<close> object, after the configuration check.
\<close>

record main_module = config +
  client :: openai_client

definition module_globals :: "config \<Rightarrow> openai_client \<Rightarrow> main_module" where
  "module_globals cfg c =
     \<lparr>BASE_URL = BASE_URL cfg, API_KEY = API_KEY cfg, MODEL_NAME = MODEL_NAME cfg,
      GNEWS_API_KEY = GNEWS_API_KEY cfg, GOOGLE_API_KEY = GOOGLE_API_KEY cfg,
      SEARCH_ENGINE_ID = SEARCH_ENGINE_ID cfg, client = c\<rparr>"

definition import_main ::
  "exn + unit \<Rightarrow> environ \<Rightarrow> completion_service \<Rightarrow> exn + main_module" where
  "import_main logfire_setup getenv service =
     bind (startup logfire_setup getenv)
       (\<lambda>cfg. Inr (module_globals cfg (AsyncOpenAI service)))"

section \<open>The tools (main.py, lines 63-157)\<close>

text \<open>
  Each tool returns \<^verbatim>\<open>json.dumps\<close> of a list of dicts or of a dict whose keys are fixed.
  \<^verbatim>\<open>json.dumps\<close> does not fail on these values and distinct values have distinct
  texts, so the model returns the value itself: a record per dict, with a JSON value in
  each field that takes what the provider sent. The records have the names and the
  fields of the result models of lines 34-48, whose shape the dicts follow. The debug
  \<^verbatim>\<open>print\<close> calls are left out.
\<close>

record TrendingNewsItem =
  headline :: json
  source :: json
  category :: json
  summary :: json
  rank :: int

record FactCheckResult =
  is_true :: "bool option"
  verdict :: pystr
  sources :: "json list"

record NewsSummary =
  topic :: pystr
  bullet_points :: "pystr list"

subsection \<open>get_trending_news\<close>

text \<open>
  \<open>topic_arg\<close> is the argument \<^verbatim>\<open>topic\<close> after the default: a call that omits it passes
  \<^verbatim>\<open>"latest"\<close>. \<open>category_arg\<close>, the argument \<^verbatim>\<open>category\<close>, is accepted and never read.
\<close>

definition gnews_url :: pystr where
  "gnews_url = lit ''https://gnews.io/api/v4/search''"

definition gnews_params :: "'a main_module_scheme \<Rightarrow> pystr option \<Rightarrow> (pystr \<times> json) list" where
  "gnews_params g topic_arg =
     [(lit ''q'', JStr (or_str topic_arg (lit ''breaking''))),
      (lit ''lang'', JStr (lit ''en'')),
      (lit ''max'', JInt 5),
      (lit ''token'', json_opt (GNEWS_API_KEY g))]"

definition article_item :: "pystr option \<Rightarrow> nat \<Rightarrow> json \<Rightarrow> exn + TrendingNewsItem" where
  "article_item topic_arg i a =
     bind (py_get a (lit ''title'') (JStr (lit ''No headline''))) (\<lambda>title.
     bind (py_get a (lit ''source'') (JObj [])) (\<lambda>src.
     bind (py_get src (lit ''name'') (JStr (lit ''Unknown''))) (\<lambda>name.
     bind (py_get a (lit ''description'') (JStr [])) (\<lambda>description.
       Inr \<lparr>headline = title, source = name, category = json_opt topic_arg,
            summary = description, rank = int i + 1\<rparr>))))"

definition get_trending_news ::
  "'a main_module_scheme \<Rightarrow> http \<Rightarrow> pystr option \<Rightarrow> pystr option \<Rightarrow> exn + TrendingNewsItem list" where
  "get_trending_news g requests_get topic_arg category_arg =
     try_except
       (bind (requests_get gnews_url (gnews_params g topic_arg)) (\<lambda>response.
          if status_code response \<noteq> 200 then
            Inr [\<lparr>headline = JStr (lit ''Failed to fetch news''),
                  source = JStr (lit ''System''),
                  category = json_opt topic_arg,
                  summary = JStr (lit ''API error '' @ str_int (status_code response) @
                                  lit '': '' @ resp_text response),
                  rank = 1\<rparr>]
          else
            bind (resp_json response) (\<lambda>document.
            bind (py_get document (lit ''articles'') (JList [])) (\<lambda>articles.
              if \<not> truthy articles then
                Inr [\<lparr>headline = JStr (lit ''No news found''),
                      source = JStr (lit ''GNews''),
                      category = json_opt topic_arg,
                      summary = JStr (lit ''No articles found for this topic.''),
                      rank = 1\<rparr>]
              else
                bind (py_iter articles) (\<lambda>as. comprehension (article_item topic_arg) 0 as)))))
       (\<lambda>e. Inr [\<lparr>headline = JStr (lit ''Error fetching news''),
                   source = JStr (lit ''Exception''),
                   category = json_opt topic_arg,
                   summary = JStr (str_exn e),
                   rank = 1\<rparr>])"

subsection \<open>fact_check_claim\<close>

definition fact_check_url :: "'a main_module_scheme \<Rightarrow> pystr \<Rightarrow> pystr" where
  "fact_check_url g claim =
     lit ''https://www.googleapis.com/customsearch/v1?q='' @ claim @
     lit ''&key='' @ str_opt (GOOGLE_API_KEY g) @
     lit ''&cx='' @ str_opt (SEARCH_ENGINE_ID g)"

definition fact_check_claim ::
  "'a main_module_scheme \<Rightarrow> http \<Rightarrow> pystr \<Rightarrow> exn + FactCheckResult" where
  "fact_check_claim g requests_get claim =
     try_except
       (bind (requests_get (fact_check_url g claim) []) (\<lambda>response.
        bind (resp_json response) (\<lambda>document.
        bind (py_get document (lit ''items'') (JList [])) (\<lambda>items.
        bind (py_slice 3 items) (\<lambda>first.
        bind (py_iter first) (\<lambda>its.
        bind (comprehension (\<lambda>i item. py_getitem item (lit ''link'')) 0 its) (\<lambda>links.
          Inr \<lparr>is_true = None,
               verdict = (if \<not> truthy items then lit ''Unverified claim''
                          else lit ''Supporting sources found''),
               sources = links\<rparr>)))))))
       (\<lambda>e. Inr \<lparr>is_true = None,
                  verdict = lit ''Error: '' @ str_exn e,
                  sources = []\<rparr>)"

text \<open>The link of a search item, when it has one: the value of \<^verbatim>\<open>item['link']\<close>.\<close>

definition item_link :: "json \<Rightarrow> json option" where
  "item_link item = (case py_getitem item (lit ''link'') of Inl e \<Rightarrow> None | Inr l \<Rightarrow> Some l)"

subsection \<open>summarize_news\<close>

text \<open>
  The list comprehension of line 148: the lines that are not blank are kept, and each
  kept line loses the characters \<^verbatim>\<open>-\<close>, U+2022 and space at both ends, then whitespace
  at both ends.
\<close>

definition summary_lines :: "pystr \<Rightarrow> pystr list" where
  "summary_lines summary_text =
     map (\<lambda>line. strip (strip_chars [45, 8226, 32] line))
       (filter (\<lambda>line. strip line \<noteq> []) (split 10 summary_text))"

definition summarize_prompt :: "pystr \<Rightarrow> pystr" where
  "summarize_prompt article_text =
     lit ''Summarize the following news article into 3-5 bullet points:'' @ [10, 10] @ article_text"

definition summarize_news :: "'a main_module_scheme \<Rightarrow> pystr \<Rightarrow> exn + NewsSummary" where
  "summarize_news g article_text =
     try_except
       (bind (create (client g)
                \<lparr>model = MODEL_NAME g,
                 messages = [(lit ''user'', summarize_prompt article_text)]\<rparr>) (\<lambda>response.
        bind (get_choices response) (\<lambda>cs.
        bind (index0 cs) (\<lambda>content.
        bind (content_strip content) (\<lambda>summary_text.
          Inr \<lparr>topic = lit ''Custom Article Summary'',
               bullet_points = summary_lines summary_text\<rparr>)))))
       (\<lambda>e. Inr \<lparr>topic = lit ''Summarization Error'',
                  bullet_points = [lit ''Failed to summarize article: '' @ str_exn e]\<rparr>)"

section \<open>The result renderer (ui_Main.py, lines 74-90)\<close>




















section \<open>Concrete runs\<close>

text \<open>Environments, providers and module states on which the theorems are instantiated.\<close>

definition env_full :: environ where
  "env_full name =
     (if name = lit ''BASE_URL'' then Some (lit ''https://api.example/v1'')
      else if name = lit ''API_KEY'' then Some (lit ''key'')
      else if name = lit ''MODEL_NAME'' then Some (lit ''model'')
      else None)"

definition env_no_key :: environ where
  "env_no_key name = (if name = lit ''API_KEY'' then None else env_full name)"

definition env_empty_model :: environ where
  "env_empty_model name = (if name = lit ''MODEL_NAME'' then Some [] else env_full name)"

definition logfire_unconfigured :: exn where
  "logfire_unconfigured =
     PyException ''LogfireConfigError'' (lit ''You are not authenticated. Please run logfire auth to authenticate.'')"

definition connection_refused :: exn where
  "connection_refused = PyException ''ConnectionError'' (lit ''connection refused'')"

definition http_down :: http where
  "http_down url params = Inl connection_refused"

definition stub_service :: "pystr \<Rightarrow> completion_service" where
  "stub_service reply request = Inr (ChatCompletion [Some reply])"

definition g_test :: main_module where
  "g_test = module_globals (load_config env_full) (AsyncOpenAI (stub_service []))"

definition json_error :: exn where
  "json_error = PyException ''JSONDecodeError'' (lit ''Expecting value: line 1 column 1 (char 0)'')"

definition http_500 :: http where
  "http_500 url params =
     Inr \<lparr>status_code = 500, resp_text = lit ''Internal Server Error'', resp_json = Inl json_error\<rparr>"

definition error_body :: json where
  "error_body =
     JObj [(lit ''error'', JObj [(lit ''code'', JInt 500),
                                 (lit ''message'', JStr (lit ''Internal error''))])]"

text \<open>The text of \<open>error_body\<close>; 34 is the double quote.\<close>

definition error_text :: pystr where
  "error_text =
     lit ''{'' @ [34] @ lit ''error'' @ [34] @ lit '': {'' @ [34] @ lit ''code'' @ [34] @
     lit '': 500, '' @ [34] @ lit ''message'' @ [34] @ lit '': '' @ [34] @
     lit ''Internal error'' @ [34] @ lit ''}}''"

definition http_500_json :: http where
  "http_500_json url params =
     Inr \<lparr>status_code = 500, resp_text = error_text, resp_json = Inr error_body\<rparr>"

definition http_json :: "json \<Rightarrow> http" where
  "http_json document url params =
     Inr \<lparr>status_code = 200, resp_text = [], resp_json = Inr document\<rparr>"

definition article_a :: json where
  "article_a = JObj [(lit ''title'', JStr (lit ''Chip sales rise'')),
                     (lit ''source'', JObj [(lit ''name'', JStr (lit ''Wire''))]),
                     (lit ''description'', JStr (lit ''Sales rose.''))]"

definition article_b :: json where
  "article_b = JObj [(lit ''title'', JStr (lit ''New phone'')),
                     (lit ''description'', JStr (lit ''A phone.''))]"

definition two_articles :: json where
  "two_articles = JObj [(lit ''articles'', JList [article_a, article_b])]"

definition result_item :: "pystr \<Rightarrow> json" where
  "result_item url = JObj [(lit ''title'', JStr (lit ''page'')), (lit ''link'', JStr url)]"

definition four_results :: json where
  "four_results = JObj [(lit ''items'',
     JList [result_item (lit ''https://a''), result_item (lit ''https://b''),
            result_item (lit ''https://c''), result_item (lit ''https://d'')])]"

definition no_results :: json where
  "no_results = JObj [(lit ''kind'', JStr (lit ''customsearch#search''))]"

definition tech_batch :: "TrendingNewsItem list" where
  "tech_batch =
     [\<lparr>headline = JStr (lit ''Chip sales rise''), source = JStr (lit ''Wire''),
       category = JStr (lit ''tech''), summary = JStr (lit ''Sales rose.''), rank = 1\<rparr>,
      \<lparr>headline = JStr (lit ''New phone''), source = JStr (lit ''Unknown''),
       category = JStr (lit ''tech''), summary = JStr (lit ''A phone.''), rank = 2\<rparr>]"

definition g_sync :: "completion_service \<Rightarrow> main_module" where
  "g_sync service = g_test\<lparr>client := OpenAI service\<rparr>"

definition scenario_article :: pystr where
  "scenario_article = lit ''OpenAI expands GPT access to new platforms''"

definition scenario_reply :: pystr where
  "scenario_reply = lit ''- point one'' @ [10] @ lit ''- point two'' @ [10] @ lit ''- point three''"

definition reply_lone_dash :: pystr where
  "reply_lone_dash = lit ''- a'' @ [10] @ lit ''-'' @ [10] @ lit ''- b''"

definition reply_tab_dash :: pystr where
  "reply_tab_dash = lit ''a'' @ [10, 9] @ lit ''- b''"

definition coroutine_failure :: NewsSummary where
  "coroutine_failure =
     \<lparr>topic = lit ''Summarization Error'',
      bullet_points =
        [lit ''Failed to summarize article: '' @ quoted (lit ''coroutine'') @
         lit '' object has no attribute '' @ quoted (lit ''choices'')]\<rparr>"










section \<open>Basic facts\<close>

lemma lit_simps: "lit [] = []" "lit (c # cs) = of_char c # lit cs"
  by (simp_all add: lit_def)

lemma try_except_Inl [simp]: "try_except (Inl e) h = h e"
  by (simp add: try_except_def)

lemma try_except_Inr [simp]: "try_except (Inr v) h = Inr v"
  by (simp add: try_except_def)

lemma bind_Inl [simp]: "bind (Inl e) f = Inl e"
  by (simp add: bind_def)

lemma bind_Inr [simp]: "bind (Inr v) f = f v"
  by (simp add: bind_def)

lemma try_except_returns:
  "(\<And>e. \<exists>v. handler e = Inr v) \<Longrightarrow> \<exists>v. try_except body handler = Inr v"
  by (cases body) (simp_all add: try_except_def)

section \<open>Configuration\<close>

lemma startup_missing:
  assumes "n \<in> set required_names" and "getenv n = None \<or> getenv n = Some []"
  shows "startup (Inr ()) getenv = Inl settings_error"
  using assms unfolding startup_def load_config_def required_names_def not_str_def Let_def
  by auto

lemma startup_present:
  assumes "\<forall>n \<in> set required_names. \<exists>v. getenv n = Some v \<and> v \<noteq> []"
  shows "startup (Inr ()) getenv = Inr (load_config getenv)"
  using assms unfolding startup_def load_config_def required_names_def not_str_def Let_def
  by auto

lemma startup_logfire_raises: "startup (Inl e) getenv = Inl e"
  by (simp add: startup_def)

lemma startup_missing_any:
  assumes "n \<in> set required_names" and "getenv n = None"
  shows "isl (startup logfire_setup getenv)"
proof (cases logfire_setup)
  case (Inl e)
  then show ?thesis by (simp add: startup_logfire_raises)
next
  case (Inr u)
  then show ?thesis using startup_missing [of n getenv] assms by simp
qed

lemma setting_required_iff: "setting_required n \<longleftrightarrow> n \<in> set required_names"
proof
  assume r: "setting_required n"
  show "n \<in> set required_names"
  proof (rule ccontr)
    assume n: "n \<notin> set required_names"
    let ?env = "\<lambda>m. if m = n then None else Some [120::nat]"
    have "\<forall>m \<in> set required_names. \<exists>v. ?env m = Some v \<and> v \<noteq> []"
      using n by auto
    then have "startup (Inr ()) ?env = Inr (load_config ?env)" by (rule startup_present)
    moreover have "isl (startup (Inr ()) ?env)"
      using r unfolding setting_required_def by simp
    ultimately show False by simp
  qed
next
  assume "n \<in> set required_names"
  then show "setting_required n"
    unfolding setting_required_def using startup_missing_any by blast
qed

lemma card_required_names: "card (set required_names) = 3"
  by (simp add: required_names_def card_insert_if lit_simps)

text \<open>
  Claim C7, as the code has it. The module reads three required settings, not four:
  \<^verbatim>\<open>BASE_URL\<close>, \<^verbatim>\<open>API_KEY\<close> and \<^verbatim>\<open>MODEL_NAME\<close>. Once the Logfire setup of lines 15-16 has
  returned, an import in which one of the three is unset or empty ends in the
  \<^verbatim>\<open>ValueError\<close> of line 29, before \<^verbatim>\<open>client\<close> and the tools exist, and an import in which
  the three are set to non-empty values passes the check, whatever the three provider
  keys are. When the Logfire setup raises, the import ends in that exception and the
  settings are never looked at. The settings whose absence alone stops every import
  are exactly these three.
\<close>

theorem startup_configuration:
  "(\<forall>n \<in> set required_names. getenv n = None \<or> getenv n = Some [] \<longrightarrow>
      startup (Inr ()) getenv = Inl settings_error) \<and>
   ((\<forall>n \<in> set required_names. \<exists>v. getenv n = Some v \<and> v \<noteq> []) \<longrightarrow>
      startup (Inr ()) getenv = Inr (load_config getenv)) \<and>
   startup (Inl e) getenv = Inl e \<and>
   {n. setting_required n} = set required_names \<and>
   card {n. setting_required n} = 3"
proof (intro conjI ballI impI)
  fix n assume "n \<in> set required_names" "getenv n = None \<or> getenv n = Some []"
  then show "startup (Inr ()) getenv = Inl settings_error"
    by (rule startup_missing)
next
  assume "\<forall>n \<in> set required_names. \<exists>v. getenv n = Some v \<and> v \<noteq> []"
  then show "startup (Inr ()) getenv = Inr (load_config getenv)" by (rule startup_present)
next
  show "startup (Inl e) getenv = Inl e" by (rule startup_logfire_raises)
next
  show eq: "{n. setting_required n} = set required_names"
    using setting_required_iff by auto
  show "card {n. setting_required n} = 3"
    unfolding eq by (rule card_required_names)
qed

text \<open>
  Witness of C7: with Logfire set up, an environment without \<^verbatim>\<open>API_KEY\<close> and one with
  an empty \<^verbatim>\<open>MODEL_NAME\<close> stop the import with the \<^verbatim>\<open>ValueError\<close>, and one with the three
  settings and no provider key passes; without Logfire credentials the same
  environment ends in the Logfire exception.
\<close>

theorem startup_configuration_witness:
  "startup (Inr ()) env_no_key = Inl settings_error \<and>
   startup (Inr ()) env_empty_model = Inl settings_error \<and>
   startup (Inr ()) env_full = Inr (load_config env_full) \<and>
   startup (Inl logfire_unconfigured) env_full = Inl logfire_unconfigured \<and>
   card {n. setting_required n} = 3"
proof -
  have a: "lit ''API_KEY'' \<in> set required_names" "lit ''MODEL_NAME'' \<in> set required_names"
    by (simp_all add: required_names_def)
  have b: "env_no_key (lit ''API_KEY'') = None" "env_empty_model (lit ''MODEL_NAME'') = Some []"
    by (simp_all add: env_no_key_def env_empty_model_def)
  have c: "\<forall>n \<in> set required_names. \<exists>v. env_full n = Some v \<and> v \<noteq> []"
    by (simp add: required_names_def env_full_def lit_simps)
  show ?thesis
    using startup_configuration [of env_no_key logfire_unconfigured]
      startup_configuration [of env_empty_model logfire_unconfigured]
      startup_configuration [of env_full logfire_unconfigured] a b c
    by blast
qed

text \<open>
  Counterexample to C7 as stated: the number of required settings is not four.
\<close>

theorem four_required_settings_counterexample:
  "card {n. setting_required n} \<noteq> 4"
proof -
  have "{n. setting_required n} = set required_names"
    using setting_required_iff by auto
  then show ?thesis by (simp add: card_required_names)
qed

section \<open>UserContext\<close>

text \<open>
  Claim C8. A \<^verbatim>\<open>UserContext\<close> built without preferred topics has the empty list, one built
  without a session start has the clock's reading at construction, a supplied value is
  kept as it is, and the user id is the one supplied.
\<close>

theorem UserContext_defaults:
  "new_UserContext now uid None None =
     \<lparr>user_id = uid, preferred_topics = Some [], session_start = Some now\<rparr> \<and>
   new_UserContext now uid (Some ts) None =
     \<lparr>user_id = uid, preferred_topics = Some ts, session_start = Some now\<rparr> \<and>
   new_UserContext now uid None (Some t0) =
     \<lparr>user_id = uid, preferred_topics = Some [], session_start = Some t0\<rparr> \<and>
   new_UserContext now uid (Some ts) (Some t0) =
     \<lparr>user_id = uid, preferred_topics = Some ts, session_start = Some t0\<rparr>"
  by (simp add: new_UserContext_def post_init_def dataclass_init_def)

section \<open>fact_check_claim\<close>

text \<open>
  Claim C10. When the search provider raises, in the request or in decoding the body,
  the tool returns a record whose verdict is \<^verbatim>\<open>Error: \<close> followed by the exception's
  text: a third verdict, equal to neither of the two documented ones, with \<open>is_true\<close>
  unset and no sources.
\<close>

theorem fact_check_provider_exception:
  assumes "requests_get (fact_check_url g claim) [] = Inl e \<or>
           (\<exists>response. requests_get (fact_check_url g claim) [] = Inr response \<and>
                        resp_json response = Inl e)"
  shows "\<exists>r. fact_check_claim g requests_get claim = Inr r \<and>
             is_true r = None \<and> sources r = [] \<and>
             verdict r = lit ''Error: '' @ str_exn e \<and>
             take 7 (verdict r) = lit ''Error: '' \<and>
             verdict r \<noteq> lit ''Unverified claim'' \<and>
             verdict r \<noteq> lit ''Supporting sources found''"
  using assms by (auto simp: fact_check_claim_def lit_simps)

text \<open>Witness of C10: the provider refuses the connection.\<close>

theorem fact_check_provider_exception_witness:
  "\<exists>r. fact_check_claim g_test http_down (lit ''Did Apple acquire OpenAI?'') = Inr r \<and>
       is_true r = None \<and> sources r = [] \<and>
       verdict r = lit ''Error: '' @ str_exn connection_refused \<and>
       take 7 (verdict r) = lit ''Error: '' \<and>
       verdict r \<noteq> lit ''Unverified claim'' \<and>
       verdict r \<noteq> lit ''Supporting sources found''"
proof -
  have h: "http_down (fact_check_url g_test (lit ''Did Apple acquire OpenAI?'')) [] = Inl connection_refused \<or>
           (\<exists>response. http_down (fact_check_url g_test (lit ''Did Apple acquire OpenAI?'')) [] = Inr response \<and>
                        resp_json response = Inl connection_refused)"
    by (simp add: http_down_def)
  show ?thesis
    by (rule fact_check_provider_exception
        [of http_down g_test "lit ''Did Apple acquire OpenAI?''" connection_refused, OF h])
qed

section \<open>get_trending_news\<close>

lemma comprehension_Inr:
  "comprehension f i xs = Inr ys \<Longrightarrow>
     length ys = length xs \<and> (\<forall>k<length xs. f (i + k) (xs ! k) = Inr (ys ! k))"
proof (induction xs arbitrary: i ys)
  case Nil
  then show ?case by simp
next
  case (Cons x xs)
  from Cons.prems obtain y zs where y: "f i x = Inr y"
    and zs: "comprehension f (Suc i) xs = Inr zs" and ys: "ys = y # zs"
    by (auto simp: bind_def split: sum.splits)
  from Cons.IH [OF zs] have len: "length zs = length xs"
    and el: "\<forall>k<length xs. f (Suc i + k) (xs ! k) = Inr (zs ! k)" by simp_all
  show ?case
  proof (intro conjI allI impI)
    show "length ys = length (x # xs)" using len ys by simp
  next
    fix k assume "k < length (x # xs)"
    then show "f (i + k) ((x # xs) ! k) = Inr (ys ! k)"
      using y el ys by (cases k) simp_all
  qed
qed

lemma comprehension_map:
  "(\<And>x. x \<in> set xs \<Longrightarrow> f x = Inr (h x)) \<Longrightarrow>
   comprehension (\<lambda>i. f) n xs = Inr (map h xs)"
  by (induction xs arbitrary: n) simp_all

lemma article_item_rank: "article_item t i a = Inr it \<Longrightarrow> rank it = int i + 1"
  by (auto simp: article_item_def bind_def split: sum.splits)

lemma comprehension_ranks:
  "comprehension (article_item t) i xs = Inr ys \<Longrightarrow>
     map rank ys = map (\<lambda>k. int k + 1) [i..<i + length xs]"
proof (induction xs arbitrary: i ys)
  case Nil
  then show ?case by simp
next
  case (Cons x xs)
  from Cons.prems obtain y zs where y: "article_item t i x = Inr y"
    and zs: "comprehension (article_item t) (Suc i) xs = Inr zs" and ys: "ys = y # zs"
    by (auto simp: bind_def split: sum.splits)
  have "map rank zs = map (\<lambda>k. int k + 1) [Suc i..<Suc i + length xs]"
    by (rule Cons.IH [OF zs])
  moreover have "rank y = int i + 1" by (rule article_item_rank [OF y])
  ultimately show ?case using ys by (simp add: upt_conv_Cons del: upt_Suc)
qed

lemma truthy_iter_nonempty: "truthy a \<Longrightarrow> py_iter a = Inr xs \<Longrightarrow> xs \<noteq> []"
  by (cases a) auto

lemma get_trending_news_returns: "\<exists>items. get_trending_news g requests_get t c = Inr items"
  unfolding get_trending_news_def by (rule try_except_returns) simp

lemma comprehension_nonempty_ranks:
  assumes "comprehension (article_item t) 0 as = Inr items" and "as \<noteq> []"
  shows "items \<noteq> [] \<and> map rank items = map (\<lambda>k. int k + 1) [0..<length items]"
proof -
  have len: "length items = length as" using comprehension_Inr [OF assms(1)] by simp
  have "map rank items = map (\<lambda>k. int k + 1) [0..<0 + length as]"
    by (rule comprehension_ranks [OF assms(1)])
  then show ?thesis using len assms(2) by auto
qed

lemma get_trending_news_ranks:
  assumes "get_trending_news g requests_get t c = Inr items"
  shows "items \<noteq> [] \<and> map rank items = map (\<lambda>k. int k + 1) [0..<length items]"
  using assms unfolding get_trending_news_def try_except_def bind_def
  by (auto split: sum.splits if_splits
      dest: truthy_iter_nonempty comprehension_nonempty_ranks)

lemma ranks_ascending:
  "sorted_wrt (<) (map (\<lambda>k. int k + 1) [0..<n]) \<and> distinct (map (\<lambda>k. int k + 1) [0..<n])"
  by (simp add: sorted_wrt_iff_nth_less distinct_map inj_on_def)

lemma get_trending_news_success:
  assumes "requests_get gnews_url (gnews_params g t) = Inr response"
    and "status_code response = 200"
    and "resp_json response = Inr document"
    and "py_get document (lit ''articles'') (JList []) = Inr (JList as)"
    and "as \<noteq> []"
    and "comprehension (article_item t) 0 as = Inr items"
  shows "get_trending_news g requests_get t c = Inr items"
  using assms by (simp add: get_trending_news_def)

text \<open>
  Claim C3. Every run of \<^verbatim>\<open>get_trending_news\<close> returns a batch, the batch is not empty,
  and the ranks of its items are 1, 2, ... in order, so they ascend strictly and no two
  are equal. When the provider answers 200 with a non-empty list of articles that the
  comprehension accepts, the batch has one item per article, in the provider's order,
  and the item of the article at position \<open>k\<close> (from 0) has rank \<open>k + 1\<close>.
\<close>

theorem trending_news_ranks:
  "(\<exists>items. get_trending_news g requests_get topic_arg category_arg = Inr items \<and>
      items \<noteq> [] \<and>
      map rank items = map (\<lambda>k. int k + 1) [0..<length items] \<and>
      sorted_wrt (<) (map rank items) \<and> distinct (map rank items)) \<and>
   (requests_get gnews_url (gnews_params g topic_arg) = Inr response \<and>
    status_code response = 200 \<and>
    resp_json response = Inr document \<and>
    py_get document (lit ''articles'') (JList []) = Inr (JList as) \<and> as \<noteq> [] \<and>
    comprehension (article_item topic_arg) 0 as = Inr batch \<longrightarrow>
      get_trending_news g requests_get topic_arg category_arg = Inr batch \<and>
      length batch = length as \<and>
      (\<forall>k<length as. article_item topic_arg k (as ! k) = Inr (batch ! k) \<and>
                      rank (batch ! k) = int k + 1))"
proof (intro conjI impI)
  obtain items where r: "get_trending_news g requests_get topic_arg category_arg = Inr items"
    using get_trending_news_returns by blast
  have s: "items \<noteq> [] \<and> map rank items = map (\<lambda>k. int k + 1) [0..<length items]"
    by (rule get_trending_news_ranks [OF r])
  then have "sorted_wrt (<) (map rank items) \<and> distinct (map rank items)"
    using ranks_ascending [of "length items"] by simp
  with r s show "\<exists>items. get_trending_news g requests_get topic_arg category_arg = Inr items \<and>
      items \<noteq> [] \<and>
      map rank items = map (\<lambda>k. int k + 1) [0..<length items] \<and>
      sorted_wrt (<) (map rank items) \<and> distinct (map rank items)"
    by blast
next
  assume a: "requests_get gnews_url (gnews_params g topic_arg) = Inr response \<and>
    status_code response = 200 \<and>
    resp_json response = Inr document \<and>
    py_get document (lit ''articles'') (JList []) = Inr (JList as) \<and> as \<noteq> [] \<and>
    comprehension (article_item topic_arg) 0 as = Inr batch"
  then have comp: "comprehension (article_item topic_arg) 0 as = Inr batch" by simp
  show "get_trending_news g requests_get topic_arg category_arg = Inr batch"
    using a get_trending_news_success by blast
  show "length batch = length as" using comprehension_Inr [OF comp] by simp
  show "\<forall>k<length as. article_item topic_arg k (as ! k) = Inr (batch ! k) \<and>
                      rank (batch ! k) = int k + 1"
  proof (intro allI impI)
    fix k assume "k < length as"
    then have "article_item topic_arg k (as ! k) = Inr (batch ! k)"
      using comprehension_Inr [OF comp] by simp
    then show "article_item topic_arg k (as ! k) = Inr (batch ! k) \<and>
                      rank (batch ! k) = int k + 1"
      using article_item_rank by blast
  qed
qed

text \<open>
  Witness of C3: the provider returns two articles for the topic \<^verbatim>\<open>tech\<close>; the batch
  has the two items in the provider's order with ranks 1 and 2.
\<close>

theorem trending_news_ranks_witness:
  "get_trending_news g_test (http_json two_articles) (Some (lit ''tech'')) None = Inr tech_batch \<and>
   length tech_batch = 2 \<and> map rank tech_batch = [1, 2] \<and>
   (\<exists>items. get_trending_news g_test http_500 (Some (lit ''tech'')) None = Inr items \<and>
      items \<noteq> [] \<and>
      map rank items = map (\<lambda>k. int k + 1) [0..<length items] \<and>
      sorted_wrt (<) (map rank items) \<and> distinct (map rank items))"
proof -
  have h: "http_json two_articles gnews_url (gnews_params g_test (Some (lit ''tech''))) =
             Inr \<lparr>status_code = 200, resp_text = [], resp_json = Inr two_articles\<rparr> \<and>
           status_code \<lparr>status_code = 200, resp_text = [], resp_json = Inr two_articles\<rparr> = 200 \<and>
           resp_json \<lparr>status_code = 200, resp_text = [], resp_json = Inr two_articles\<rparr> =
             Inr two_articles \<and>
           py_get two_articles (lit ''articles'') (JList []) = Inr (JList [article_a, article_b]) \<and>
           [article_a, article_b] \<noteq> [] \<and>
           comprehension (article_item (Some (lit ''tech''))) 0 [article_a, article_b] = Inr tech_batch"
    by (simp add: http_json_def two_articles_def article_a_def article_b_def article_item_def
        tech_batch_def json_opt_def lit_simps)
  have "get_trending_news g_test (http_json two_articles) (Some (lit ''tech'')) None = Inr tech_batch"
    using trending_news_ranks [of g_test "http_json two_articles" "Some (lit ''tech'')" None
        "\<lparr>status_code = 200, resp_text = [], resp_json = Inr two_articles\<rparr>" two_articles
        "[article_a, article_b]" tech_batch] h
    by blast
  moreover have "length tech_batch = 2 \<and> map rank tech_batch = [1, 2]"
    by (simp add: tech_batch_def)
  moreover have "\<exists>items. get_trending_news g_test http_500 (Some (lit ''tech'')) None = Inr items \<and>
      items \<noteq> [] \<and>
      map rank items = map (\<lambda>k. int k + 1) [0..<length items] \<and>
      sorted_wrt (<) (map rank items) \<and> distinct (map rank items)"
    using trending_news_ranks [of g_test http_500 "Some (lit ''tech'')" None] by blast
  ultimately show ?thesis by blast
qed

section \<open>fact_check_claim: verdict and sources\<close>

lemma fact_check_no_items:
  assumes "requests_get (fact_check_url g claim) [] = Inr response"
    and "resp_json response = Inr (JObj kvs)"
    and "map_of kvs (lit ''items'') = None \<or> map_of kvs (lit ''items'') = Some (JList [])"
  shows "fact_check_claim g requests_get claim =
           Inr \<lparr>is_true = None, verdict = lit ''Unverified claim'', sources = []\<rparr>"
  using assms by (auto simp: fact_check_claim_def)

lemma links_of_items:
  assumes "\<forall>it \<in> set xs. item_link it \<noteq> None"
  shows "comprehension (\<lambda>i item. py_getitem item (lit ''link'')) n xs =
           Inr (map (\<lambda>it. the (item_link it)) xs)"
proof (rule comprehension_map)
  fix x assume "x \<in> set xs"
  then have "item_link x \<noteq> None" using assms by blast
  then show "py_getitem x (lit ''link'') = Inr (the (item_link x))"
    by (auto simp: item_link_def split: sum.splits)
qed

lemma fact_check_some_items:
  assumes "requests_get (fact_check_url g claim) [] = Inr response"
    and "resp_json response = Inr (JObj kvs)"
    and "map_of kvs (lit ''items'') = Some (JList its)" and "its \<noteq> []"
    and "\<forall>it \<in> set (take 3 its). item_link it \<noteq> None"
  shows "fact_check_claim g requests_get claim =
           Inr \<lparr>is_true = None, verdict = lit ''Supporting sources found'',
                sources = map (\<lambda>it. the (item_link it)) (take 3 its)\<rparr>"
  using assms by (simp add: fact_check_claim_def links_of_items)

text \<open>
  Claim C2. The search answers with a JSON object. When it holds no items (no
  \<^verbatim>\<open>items\<close> member, or an empty list) the verdict is \<^verbatim>\<open>Unverified claim\<close> and there are
  no sources. When it holds \<open>n \<ge> 1\<close> items, the first three of which have a link, the
  verdict is \<^verbatim>\<open>Supporting sources found\<close> and the sources are the links of the first
  \<open>min 3 n\<close> items in the provider's order. \<open>is_true\<close> is unset in both cases.
\<close>

theorem fact_check_verdict_and_sources:
  assumes "requests_get (fact_check_url g claim) [] = Inr response"
    and "resp_json response = Inr (JObj kvs)"
  shows "(map_of kvs (lit ''items'') = None \<or> map_of kvs (lit ''items'') = Some (JList []) \<longrightarrow>
            fact_check_claim g requests_get claim =
              Inr \<lparr>is_true = None, verdict = lit ''Unverified claim'', sources = []\<rparr>) \<and>
         (\<forall>its. map_of kvs (lit ''items'') = Some (JList its) \<and> its \<noteq> [] \<and>
                (\<forall>it \<in> set (take 3 its). item_link it \<noteq> None) \<longrightarrow>
            fact_check_claim g requests_get claim =
              Inr \<lparr>is_true = None, verdict = lit ''Supporting sources found'',
                   sources = map (\<lambda>it. the (item_link it)) (take 3 its)\<rparr> \<and>
            length (map (\<lambda>it. the (item_link it)) (take 3 its)) = min 3 (length its))"
proof (intro conjI allI impI)
  assume "map_of kvs (lit ''items'') = None \<or> map_of kvs (lit ''items'') = Some (JList [])"
  then show "fact_check_claim g requests_get claim =
              Inr \<lparr>is_true = None, verdict = lit ''Unverified claim'', sources = []\<rparr>"
    using assms fact_check_no_items by blast
next
  fix its
  assume a: "map_of kvs (lit ''items'') = Some (JList its) \<and> its \<noteq> [] \<and>
                (\<forall>it \<in> set (take 3 its). item_link it \<noteq> None)"
  show "fact_check_claim g requests_get claim =
              Inr \<lparr>is_true = None, verdict = lit ''Supporting sources found'',
                   sources = map (\<lambda>it. the (item_link it)) (take 3 its)\<rparr>"
    using assms a fact_check_some_items by blast
  show "length (map (\<lambda>it. the (item_link it)) (take 3 its)) = min 3 (length its)"
    by (simp add: min.commute)
qed

text \<open>
  Witness of C2: a search without items (the second end-to-end scenario of the
  specification) and a search with four items, of which the first three links are kept.
\<close>

theorem fact_check_verdict_and_sources_witness:
  "fact_check_claim g_test (http_json no_results) (lit ''Did Apple acquire OpenAI?'') =
     Inr \<lparr>is_true = None, verdict = lit ''Unverified claim'', sources = []\<rparr> \<and>
   fact_check_claim g_test (http_json four_results) (lit ''Did Apple acquire OpenAI?'') =
     Inr \<lparr>is_true = None, verdict = lit ''Supporting sources found'',
          sources = [JStr (lit ''https://a''), JStr (lit ''https://b''), JStr (lit ''https://c'')]\<rparr>"
proof -
  let ?claim = "lit ''Did Apple acquire OpenAI?''"
  let ?four = "[result_item (lit ''https://a''), result_item (lit ''https://b''),
                result_item (lit ''https://c''), result_item (lit ''https://d'')]"
  have r0: "http_json no_results (fact_check_url g_test ?claim) [] =
              Inr \<lparr>status_code = 200, resp_text = [], resp_json = Inr no_results\<rparr>"
    and r4: "http_json four_results (fact_check_url g_test ?claim) [] =
              Inr \<lparr>status_code = 200, resp_text = [], resp_json = Inr four_results\<rparr>"
    by (simp_all add: http_json_def)
  have j0: "resp_json \<lparr>status_code = 200, resp_text = [], resp_json = Inr no_results\<rparr> =
              Inr (JObj [(lit ''kind'', JStr (lit ''customsearch#search''))])"
    and j4: "resp_json \<lparr>status_code = 200, resp_text = [], resp_json = Inr four_results\<rparr> =
              Inr (JObj [(lit ''items'', JList ?four)])"
    by (simp_all add: no_results_def four_results_def)
  have m0: "map_of [(lit ''kind'', JStr (lit ''customsearch#search''))] (lit ''items'') = None"
    by (simp add: lit_simps)
  have m4: "map_of [(lit ''items'', JList ?four)] (lit ''items'') = Some (JList ?four) \<and>
            ?four \<noteq> [] \<and> (\<forall>it \<in> set (take 3 ?four). item_link it \<noteq> None)"
    by (simp add: item_link_def result_item_def lit_simps)
  have l4: "map (\<lambda>it. the (item_link it)) (take 3 ?four) =
            [JStr (lit ''https://a''), JStr (lit ''https://b''), JStr (lit ''https://c'')]"
    by (simp add: item_link_def result_item_def lit_simps)
  show ?thesis
    using fact_check_verdict_and_sources
        [where requests_get = "http_json no_results" and g = g_test and claim = ?claim, OF r0 j0]
      fact_check_verdict_and_sources
        [where requests_get = "http_json four_results" and g = g_test and claim = ?claim, OF r4 j4]
      m0 m4 l4
    by (metis (no_types, lifting))
qed

section \<open>The tools never raise\<close>

lemma slice_iter_length:
  "py_slice n items = Inr first \<Longrightarrow> py_iter first = Inr its \<Longrightarrow> length its \<le> n"
  by (cases items) auto

lemma fact_check_claim_shape:
  "\<exists>r. fact_check_claim g requests_get claim = Inr r \<and> is_true r = None \<and>
       length (sources r) \<le> 3 \<and>
       (verdict r = lit ''Unverified claim'' \<or> verdict r = lit ''Supporting sources found'' \<or>
        (\<exists>e. verdict r = lit ''Error: '' @ str_exn e \<and> sources r = []))"
proof -
  let ?body = "bind (requests_get (fact_check_url g claim) []) (\<lambda>response.
        bind (resp_json response) (\<lambda>document.
        bind (py_get document (lit ''items'') (JList [])) (\<lambda>items.
        bind (py_slice 3 items) (\<lambda>first.
        bind (py_iter first) (\<lambda>its.
        bind (comprehension (\<lambda>i item. py_getitem item (lit ''link'')) 0 its) (\<lambda>links.
          Inr \<lparr>is_true = None,
               verdict = (if \<not> truthy items then lit ''Unverified claim''
                          else lit ''Supporting sources found''),
               sources = links\<rparr>))))))"
  show ?thesis
  proof (cases ?body)
    case (Inl e)
    then have "fact_check_claim g requests_get claim =
        Inr \<lparr>is_true = None, verdict = lit ''Error: '' @ str_exn e, sources = []\<rparr>"
      by (simp add: fact_check_claim_def)
    then show ?thesis by auto
  next
    case (Inr r)
    then have res: "fact_check_claim g requests_get claim = Inr r"
      by (simp add: fact_check_claim_def)
    from Inr obtain items first its links where
      sl: "py_slice 3 items = Inr first" and it: "py_iter first = Inr its" and
      co: "comprehension (\<lambda>i item. py_getitem item (lit ''link'')) 0 its = Inr links" and
      r: "r = \<lparr>is_true = None,
               verdict = (if \<not> truthy items then lit ''Unverified claim''
                          else lit ''Supporting sources found''),
               sources = links\<rparr>"
      by (auto simp: bind_def split: sum.splits)
    have "length links = length its" using comprehension_Inr [OF co] by simp
    moreover have "length its \<le> 3" by (rule slice_iter_length [OF sl it])
    ultimately show ?thesis using res r by auto
  qed
qed

lemma summarize_news_shape:
  "\<exists>r. summarize_news g article_text = Inr r \<and>
       (topic r = lit ''Custom Article Summary'' \<or>
        (\<exists>e. topic r = lit ''Summarization Error'' \<and>
             bullet_points r = [lit ''Failed to summarize article: '' @ str_exn e]))"
  unfolding summarize_news_def try_except_def bind_def
  by (auto split: sum.splits)

lemma get_trending_news_bad_status:
  assumes "requests_get gnews_url (gnews_params g t) = Inr response"
    and "status_code response \<noteq> 200"
  shows "get_trending_news g requests_get t c =
     Inr [\<lparr>headline = JStr (lit ''Failed to fetch news''),
           source = JStr (lit ''System''),
           category = json_opt t,
           summary = JStr (lit ''API error '' @ str_int (status_code response) @
                           lit '': '' @ resp_text response),
           rank = 1\<rparr>]"
  using assms by (simp add: get_trending_news_def)

lemma get_trending_news_exception:
  assumes "requests_get gnews_url (gnews_params g t) = Inl e \<or>
           (\<exists>response. requests_get gnews_url (gnews_params g t) = Inr response \<and>
                        status_code response = 200 \<and> resp_json response = Inl e)"
  shows "get_trending_news g requests_get t c =
     Inr [\<lparr>headline = JStr (lit ''Error fetching news''),
           source = JStr (lit ''Exception''),
           category = json_opt t,
           summary = JStr (str_exn e),
           rank = 1\<rparr>]"
  using assms by (auto simp: get_trending_news_def)

lemma fact_check_claim_exception:
  assumes "requests_get (fact_check_url g claim) [] = Inl e \<or>
           (\<exists>response. requests_get (fact_check_url g claim) [] = Inr response \<and>
                        resp_json response = Inl e)"
  shows "fact_check_claim g requests_get claim =
     Inr \<lparr>is_true = None, verdict = lit ''Error: '' @ str_exn e, sources = []\<rparr>"
  using assms by (auto simp: fact_check_claim_def)

lemma summarize_news_exception:
  assumes "create (client g)
             \<lparr>model = MODEL_NAME g,
              messages = [(lit ''user'', summarize_prompt article_text)]\<rparr> = Inl e"
  shows "summarize_news g article_text =
     Inr \<lparr>topic = lit ''Summarization Error'',
          bullet_points = [lit ''Failed to summarize article: '' @ str_exn e]\<rparr>"
  using assms by (simp add: summarize_news_def)

text \<open>
  What the \<^verbatim>\<open>try\<close>/\<^verbatim>\<open>except\<close> of each tool gives on every run. No run of the three
  tools ends in an exception: each returns a value of its result type. The batch of
  \<^verbatim>\<open>get_trending_news\<close> is never empty; the record of \<^verbatim>\<open>fact_check_claim\<close> has \<open>is_true\<close>
  unset, at most three sources and one of the two verdicts or an \<^verbatim>\<open>Error: \<close> verdict
  without sources; the summary of \<^verbatim>\<open>summarize_news\<close> has the topic of a summary or is the
  degraded summary with one bullet. A status other than 200 makes \<^verbatim>\<open>get_trending_news\<close>
  return one item whose summary is \<^verbatim>\<open>API error <status>: <body>\<close>. An exception of the
  request or of the decoding of the body makes \<^verbatim>\<open>get_trending_news\<close> return one item
  whose summary is the exception's text and \<^verbatim>\<open>fact_check_claim\<close> return a record whose
  verdict is \<^verbatim>\<open>Error: \<close> and that text; an exception of the completion call makes
  \<^verbatim>\<open>summarize_news\<close> return a summary whose only bullet is
  \<^verbatim>\<open>Failed to summarize article: \<close> and that text.
\<close>

lemma tools_always_return:
  "(\<exists>items. get_trending_news g requests_get topic_arg category_arg = Inr items \<and> items \<noteq> []) \<and>
   (\<exists>r. fact_check_claim g requests_get claim = Inr r \<and> is_true r = None \<and>
       length (sources r) \<le> 3 \<and>
       (verdict r = lit ''Unverified claim'' \<or> verdict r = lit ''Supporting sources found'' \<or>
        (\<exists>e. verdict r = lit ''Error: '' @ str_exn e \<and> sources r = []))) \<and>
   (\<exists>r. summarize_news g article_text = Inr r \<and>
       (topic r = lit ''Custom Article Summary'' \<or>
        (\<exists>e. topic r = lit ''Summarization Error'' \<and>
             bullet_points r = [lit ''Failed to summarize article: '' @ str_exn e]))) \<and>
   (\<forall>response.
      requests_get gnews_url (gnews_params g topic_arg) = Inr response \<and>
      status_code response \<noteq> 200 \<longrightarrow>
      get_trending_news g requests_get topic_arg category_arg =
        Inr [\<lparr>headline = JStr (lit ''Failed to fetch news''),
              source = JStr (lit ''System''),
              category = json_opt topic_arg,
              summary = JStr (lit ''API error '' @ str_int (status_code response) @
                              lit '': '' @ resp_text response),
              rank = 1\<rparr>]) \<and>
   (\<forall>e.
      requests_get gnews_url (gnews_params g topic_arg) = Inl e \<or>
      (\<exists>response. requests_get gnews_url (gnews_params g topic_arg) = Inr response \<and>
                   status_code response = 200 \<and> resp_json response = Inl e) \<longrightarrow>
      get_trending_news g requests_get topic_arg category_arg =
        Inr [\<lparr>headline = JStr (lit ''Error fetching news''),
              source = JStr (lit ''Exception''),
              category = json_opt topic_arg,
              summary = JStr (str_exn e),
              rank = 1\<rparr>]) \<and>
   (\<forall>e.
      requests_get (fact_check_url g claim) [] = Inl e \<or>
      (\<exists>response. requests_get (fact_check_url g claim) [] = Inr response \<and>
                   resp_json response = Inl e) \<longrightarrow>
      fact_check_claim g requests_get claim =
        Inr \<lparr>is_true = None, verdict = lit ''Error: '' @ str_exn e, sources = []\<rparr>) \<and>
   (\<forall>e.
      create (client g)
        \<lparr>model = MODEL_NAME g,
         messages = [(lit ''user'', summarize_prompt article_text)]\<rparr> = Inl e \<longrightarrow>
      summarize_news g article_text =
        Inr \<lparr>topic = lit ''Summarization Error'',
             bullet_points = [lit ''Failed to summarize article: '' @ str_exn e]\<rparr>)"
proof (intro conjI allI impI)
  obtain items where r: "get_trending_news g requests_get topic_arg category_arg = Inr items"
    using get_trending_news_returns by blast
  then have "items \<noteq> []" using get_trending_news_ranks by blast
  with r show "\<exists>items. get_trending_news g requests_get topic_arg category_arg = Inr items \<and>
      items \<noteq> []"
    by blast
next
  show "\<exists>r. fact_check_claim g requests_get claim = Inr r \<and> is_true r = None \<and>
       length (sources r) \<le> 3 \<and>
       (verdict r = lit ''Unverified claim'' \<or> verdict r = lit ''Supporting sources found'' \<or>
        (\<exists>e. verdict r = lit ''Error: '' @ str_exn e \<and> sources r = []))"
    by (rule fact_check_claim_shape)
next
  show "\<exists>r. summarize_news g article_text = Inr r \<and>
       (topic r = lit ''Custom Article Summary'' \<or>
        (\<exists>e. topic r = lit ''Summarization Error'' \<and>
             bullet_points r = [lit ''Failed to summarize article: '' @ str_exn e]))"
    by (rule summarize_news_shape)
next
  fix response
  assume "requests_get gnews_url (gnews_params g topic_arg) = Inr response \<and>
      status_code response \<noteq> 200"
  then show "get_trending_news g requests_get topic_arg category_arg =
        Inr [\<lparr>headline = JStr (lit ''Failed to fetch news''),
              source = JStr (lit ''System''),
              category = json_opt topic_arg,
              summary = JStr (lit ''API error '' @ str_int (status_code response) @
                              lit '': '' @ resp_text response),
              rank = 1\<rparr>]"
    using get_trending_news_bad_status by blast
next
  fix e
  assume "requests_get gnews_url (gnews_params g topic_arg) = Inl e \<or>
      (\<exists>response. requests_get gnews_url (gnews_params g topic_arg) = Inr response \<and>
                   status_code response = 200 \<and> resp_json response = Inl e)"
  then show "get_trending_news g requests_get topic_arg category_arg =
        Inr [\<lparr>headline = JStr (lit ''Error fetching news''),
              source = JStr (lit ''Exception''),
              category = json_opt topic_arg,
              summary = JStr (str_exn e),
              rank = 1\<rparr>]"
    by (rule get_trending_news_exception)
next
  fix e
  assume "requests_get (fact_check_url g claim) [] = Inl e \<or>
      (\<exists>response. requests_get (fact_check_url g claim) [] = Inr response \<and>
                   resp_json response = Inl e)"
  then show "fact_check_claim g requests_get claim =
        Inr \<lparr>is_true = None, verdict = lit ''Error: '' @ str_exn e, sources = []\<rparr>"
    by (rule fact_check_claim_exception)
next
  fix e
  assume "create (client g)
        \<lparr>model = MODEL_NAME g,
         messages = [(lit ''user'', summarize_prompt article_text)]\<rparr> = Inl e"
  then show "summarize_news g article_text =
        Inr \<lparr>topic = lit ''Summarization Error'',
             bullet_points = [lit ''Failed to summarize article: '' @ str_exn e]\<rparr>"
    by (rule summarize_news_exception)
qed

lemma fact_check_any_status:
  assumes "requests_get (fact_check_url g claim) [] = Inr response"
    and "resp_json response = Inr (JObj kvs)"
    and "map_of kvs (lit ''items'') = None"
  shows "fact_check_claim g requests_get claim =
           Inr \<lparr>is_true = None, verdict = lit ''Unverified claim'', sources = []\<rparr>"
  using assms by (simp add: fact_check_claim_def)

text \<open>
  Claim C1, evaluated on the code. The search provider answers the fact check with
  status 500 and a JSON body that describes the error. \<^verbatim>\<open>fact_check_claim\<close> never reads
  the status (lines 123-126): it finds no \<^verbatim>\<open>items\<close> in the body and returns the verdict
  \<^verbatim>\<open>Unverified claim\<close> without sources, the very record it returns for a successful
  search without results, and not a degraded result that tells of the failure. On
  the same answer \<^verbatim>\<open>get_trending_news\<close>, which tests the status (line 79), returns the
  item whose summary is \<^verbatim>\<open>API error 500: \<close> and the body.
\<close>

theorem fact_check_claim_ignores_status:
  "fact_check_claim g_test http_500_json (lit ''Did Apple acquire OpenAI?'') =
     Inr \<lparr>is_true = None, verdict = lit ''Unverified claim'', sources = []\<rparr> \<and>
   fact_check_claim g_test http_500_json (lit ''Did Apple acquire OpenAI?'') =
     fact_check_claim g_test (http_json no_results) (lit ''Did Apple acquire OpenAI?'') \<and>
   get_trending_news g_test http_500_json (Some (lit ''tech'')) None =
     Inr [\<lparr>headline = JStr (lit ''Failed to fetch news''),
           source = JStr (lit ''System''),
           category = JStr (lit ''tech''),
           summary = JStr (lit ''API error 500: '' @ error_text),
           rank = 1\<rparr>]"
proof -
  let ?claim = "lit ''Did Apple acquire OpenAI?''"
  let ?r = "\<lparr>status_code = 500, resp_text = error_text, resp_json = Inr error_body\<rparr>"
  have a: "fact_check_claim g_test http_500_json ?claim =
     Inr \<lparr>is_true = None, verdict = lit ''Unverified claim'', sources = []\<rparr>"
  proof (rule fact_check_any_status)
    show "http_500_json (fact_check_url g_test ?claim) [] = Inr ?r"
      by (simp add: http_500_json_def)
    show "resp_json ?r =
      Inr (JObj [(lit ''error'', JObj [(lit ''code'', JInt 500),
                                       (lit ''message'', JStr (lit ''Internal error''))])])"
      by (simp add: error_body_def)
    show "map_of [(lit ''error'', JObj [(lit ''code'', JInt 500),
                                        (lit ''message'', JStr (lit ''Internal error''))])]
            (lit ''items'') = None"
      by (simp add: lit_simps)
  qed
  have b: "fact_check_claim g_test (http_json no_results) ?claim =
     Inr \<lparr>is_true = None, verdict = lit ''Unverified claim'', sources = []\<rparr>"
  proof (rule fact_check_any_status)
    show "http_json no_results (fact_check_url g_test ?claim) [] =
            Inr \<lparr>status_code = 200, resp_text = [], resp_json = Inr no_results\<rparr>"
      by (simp add: http_json_def)
    show "resp_json \<lparr>status_code = 200, resp_text = [], resp_json = Inr no_results\<rparr> =
            Inr (JObj [(lit ''kind'', JStr (lit ''customsearch#search''))])"
      by (simp add: no_results_def)
    show "map_of [(lit ''kind'', JStr (lit ''customsearch#search''))] (lit ''items'') = None"
      by (simp add: lit_simps)
  qed
  have c: "get_trending_news g_test http_500_json (Some (lit ''tech'')) None =
     Inr [\<lparr>headline = JStr (lit ''Failed to fetch news''),
           source = JStr (lit ''System''),
           category = json_opt (Some (lit ''tech'')),
           summary = JStr (lit ''API error '' @ str_int (status_code ?r) @
                           lit '': '' @ resp_text ?r),
           rank = 1\<rparr>]"
    by (rule get_trending_news_bad_status) (simp_all add: http_500_json_def)
  have d: "lit ''API error '' @ str_int (status_code ?r) @ lit '': '' @ resp_text ?r =
           lit ''API error 500: '' @ error_text"
    by (simp add: str_int_def digits.simps lit_simps)
  have e: "json_opt (Some (lit ''tech'')) = JStr (lit ''tech'')"
    by (simp add: json_opt_def)
  show ?thesis using a b c unfolding d e by simp
qed

section \<open>summarize_news\<close>

lemma import_main_client:
  "import_main logfire_setup getenv service = Inr g \<Longrightarrow> client g = AsyncOpenAI service"
  by (auto simp: import_main_def module_globals_def bind_def split: sum.splits)

lemma summarize_news_async:
  "client g = AsyncOpenAI service \<Longrightarrow> summarize_news g article_text = Inr coroutine_failure"
  by (simp add: summarize_news_def coroutine_failure_def AttributeError_def)

lemma import_env_full:
  "import_main (Inr ()) env_full service =
     Inr (module_globals (load_config env_full) (AsyncOpenAI service))"
proof -
  have "\<forall>n \<in> set required_names. \<exists>v. env_full n = Some v \<and> v \<noteq> []"
    by (simp add: required_names_def env_full_def lit_simps)
  then have "startup (Inr ()) env_full = Inr (load_config env_full)" by (rule startup_present)
  then show ?thesis by (simp add: import_main_def)
qed

text \<open>
  The module as imported never reaches the parsing of the completion: whatever the
  service would answer, \<^verbatim>\<open>create\<close> hands back a coroutine object and the read of
  \<^verbatim>\<open>.choices\<close> raises inside the \<^verbatim>\<open>try\<close>.
\<close>

lemma summarize_news_as_imported:
  assumes "import_main logfire_setup getenv service = Inr g"
  shows "summarize_news g article_text = Inr coroutine_failure"
  using summarize_news_async [OF import_main_client [OF assms]] .

lemma summary_lines_scenario:
  "summary_lines (strip scenario_reply) = [lit ''point one'', lit ''point two'', lit ''point three'']"
  by (simp add: summary_lines_def scenario_reply_def strip_def strip_chars_def strip_where_def
      isspace_def lit_simps)

text \<open>
  With a synchronous client in the place of \<^verbatim>\<open>client\<close>, the third end-to-end scenario
  of the specification gives the three bullets.
\<close>

lemma summarize_news_sync_scenario:
  "summarize_news (g_sync (stub_service scenario_reply)) scenario_article =
     Inr \<lparr>topic = lit ''Custom Article Summary'',
          bullet_points = [lit ''point one'', lit ''point two'', lit ''point three'']\<rparr>"
  by (simp add: summarize_news_def g_sync_def stub_service_def summary_lines_scenario)

text \<open>
  Claim C5, evaluated on the code. The module is imported with Logfire set up, the
  three settings and a completion service that answers
  \<^verbatim>\<open>- point one\n- point two\n- point three\<close>.
  \<^verbatim>\<open>summarize_news\<close> returns the degraded summary, whose only bullet reports that a
  coroutine object has no attribute \<^verbatim>\<open>choices\<close>, and not the three points.
\<close>

theorem summarize_news_scenario_as_imported:
  "bind (import_main (Inr ()) env_full (stub_service scenario_reply))
        (\<lambda>g. summarize_news g scenario_article) = Inr coroutine_failure \<and>
   topic coroutine_failure = lit ''Summarization Error'' \<and>
   bullet_points coroutine_failure =
     [lit ''Failed to summarize article: '' @ quoted (lit ''coroutine'') @
      lit '' object has no attribute '' @ quoted (lit ''choices'')] \<and>
   bullet_points coroutine_failure \<noteq> [lit ''point one'', lit ''point two'', lit ''point three'']"
proof -
  have "client (module_globals (load_config env_full) (AsyncOpenAI (stub_service scenario_reply))) =
        AsyncOpenAI (stub_service scenario_reply)"
    by (simp add: module_globals_def)
  then have "summarize_news
      (module_globals (load_config env_full) (AsyncOpenAI (stub_service scenario_reply)))
      scenario_article = Inr coroutine_failure"
    by (rule summarize_news_async)
  then show ?thesis
    by (simp add: import_env_full coroutine_failure_def lit_simps)
qed

lemma summary_lines_lone_dash:
  "summary_lines (strip reply_lone_dash) = [lit ''a'', [], lit ''b'']"
  by (simp add: summary_lines_def reply_lone_dash_def strip_def strip_chars_def strip_where_def
      isspace_def lit_simps)

lemma summary_lines_tab_dash:
  "summary_lines (strip reply_tab_dash) = [lit ''a'', lit ''- b'']"
  by (simp add: summary_lines_def reply_tab_dash_def strip_def strip_chars_def strip_where_def
      isspace_def lit_simps)

text \<open>
  Claim C4, evaluated on the code. Where the completion reaches the comprehension of
  line 148 (a synchronous client in the place of \<^verbatim>\<open>client\<close>), the reply
  \<^verbatim>\<open>- a\n-\n- b\<close> gives the bullets \<^verbatim>\<open>a\<close>, the empty string and \<^verbatim>\<open>b\<close>: the line \<^verbatim>\<open>-\<close>
  passes the blank-line filter and is emptied by the stripping that follows it. The
  reply \<^verbatim>\<open>a\n\t- b\<close> gives the bullets \<^verbatim>\<open>a\<close> and \<^verbatim>\<open>- b\<close>: the tab is not among the
  characters of the first strip, so the dash behind it stays. In the module as
  imported the bullets are not taken from the reply at all.
\<close>

theorem summarize_news_bullets_failing:
  "summarize_news (g_sync (stub_service reply_lone_dash)) scenario_article =
     Inr \<lparr>topic = lit ''Custom Article Summary'', bullet_points = [lit ''a'', [], lit ''b'']\<rparr> \<and>
   summarize_news (g_sync (stub_service reply_tab_dash)) scenario_article =
     Inr \<lparr>topic = lit ''Custom Article Summary'', bullet_points = [lit ''a'', lit ''- b'']\<rparr> \<and>
   bind (import_main (Inr ()) env_full (stub_service reply_lone_dash))
        (\<lambda>g. summarize_news g scenario_article) = Inr coroutine_failure"
proof -
  have "client (module_globals (load_config env_full) (AsyncOpenAI (stub_service reply_lone_dash))) =
        AsyncOpenAI (stub_service reply_lone_dash)"
    by (simp add: module_globals_def)
  then have "summarize_news
      (module_globals (load_config env_full) (AsyncOpenAI (stub_service reply_lone_dash)))
      scenario_article = Inr coroutine_failure"
    by (rule summarize_news_async)
  then show ?thesis
    by (simp add: import_env_full summarize_news_def g_sync_def stub_service_def
        summary_lines_lone_dash summary_lines_tab_dash)
qed

section \<open>format_response\<close>
















end
